theory Spec2Isabelle
  imports Complex_Main "HOL-Library.Sublist"
begin

section \<open>Python strings\<close>

text \<open>
  A Python \<^verbatim>\<open>str\<close> is a sequence of Unicode code points, and \<^verbatim>\<open>len\<close> counts code
  points. The texts the applications clean come from a text area or from a file decoded
  as UTF-8, so any code point can occur. A string is therefore modelled as a list of
  code points (natural numbers); \<open>pys\<close> reads an ASCII literal.
\<close>

type_synonym codepoint = nat
type_synonym pystr = "codepoint list"

definition pys :: "string \<Rightarrow> pystr" where
  "pys s = map of_char s"

text \<open>
  The character tables of the interpreter. For code points below 128 CPython answers
  from fixed ASCII tables, written out here. For the others it consults its Unicode
  database, which is not part of the repository: it is the parameter \<open>db\<close> of the
  functions below, so that whatever is proved for every \<open>db\<close> holds for the
  interpreter's tables. \<open>uni_lower db s i\<close> is the lowercase form of the character at
  index \<open>i\<close> of \<open>s\<close>: one character may lowercase to several, and the lowercase form
  of capital sigma depends on its neighbours.
\<close>

record ucd =
  uni_isalnum :: "codepoint \<Rightarrow> bool"
  uni_isspace :: "codepoint \<Rightarrow> bool"
  uni_lower :: "pystr \<Rightarrow> nat \<Rightarrow> pystr"

definition ascii_isalnum :: "codepoint \<Rightarrow> bool" where
  "ascii_isalnum c = ((48 \<le> c \<and> c \<le> 57) \<or> (65 \<le> c \<and> c \<le> 90) \<or> (97 \<le> c \<and> c \<le> 122))"

definition ascii_isspace :: "codepoint \<Rightarrow> bool" where
  "ascii_isspace c = ((9 \<le> c \<and> c \<le> 13) \<or> (28 \<le> c \<and> c \<le> 32))"

definition ascii_lower :: "codepoint \<Rightarrow> codepoint" where
  "ascii_lower c = (if 65 \<le> c \<and> c \<le> 90 then c + 32 else c)"

definition isalnum :: "ucd \<Rightarrow> codepoint \<Rightarrow> bool" where
  "isalnum db c = (if c < 128 then ascii_isalnum c else uni_isalnum db c)"

definition isspace :: "ucd \<Rightarrow> codepoint \<Rightarrow> bool" where
  "isspace db c = (if c < 128 then ascii_isspace c else uni_isspace db c)"

text \<open>The regular-expression classes \<^verbatim>\<open>\w\<close> (alphanumeric or underscore) and \<^verbatim>\<open>\s\<close>.\<close>

definition re_word :: "ucd \<Rightarrow> codepoint \<Rightarrow> bool" where
  "re_word db c = (isalnum db c \<or> c = 95)"

definition re_space :: "ucd \<Rightarrow> codepoint \<Rightarrow> bool" where
  "re_space db c = isspace db c"

text \<open>\<^verbatim>\<open>re.sub(r'[^\w\s]', '', text)\<close>: every character outside both classes is deleted.\<close>

definition re_sub_nonword :: "ucd \<Rightarrow> pystr \<Rightarrow> pystr" where
  "re_sub_nonword db text = filter (\<lambda>c. re_word db c \<or> re_space db c) text"

text \<open>\<^verbatim>\<open>str.lower()\<close>, character by character.\<close>

definition lower_at :: "ucd \<Rightarrow> pystr \<Rightarrow> nat \<Rightarrow> pystr" where
  "lower_at db s i = (if s ! i < 128 then [ascii_lower (s ! i)] else uni_lower db s i)"

definition str_lower :: "ucd \<Rightarrow> pystr \<Rightarrow> pystr" where
  "str_lower db s = concat (map (lower_at db s) [0..<length s])"

text \<open>\<^verbatim>\<open>str.strip()\<close>: leading and trailing whitespace removed.\<close>

definition str_strip :: "ucd \<Rightarrow> pystr \<Rightarrow> pystr" where
  "str_strip db s = rev (dropWhile (isspace db) (rev (dropWhile (isspace db) s)))"

text \<open>
  \<^verbatim>\<open>str.split()\<close> without arguments: skip whitespace, take the run of characters up to
  the next whitespace as a word, repeat; no empty word is produced.
\<close>

function str_split :: "ucd \<Rightarrow> pystr \<Rightarrow> pystr list" where
  "str_split db s =
     (case dropWhile (isspace db) s of
        [] \<Rightarrow> []
      | c # r \<Rightarrow> (c # takeWhile (\<lambda>x. \<not> isspace db x) r)
                 # str_split db (dropWhile (\<lambda>x. \<not> isspace db x) r))"
  by pat_completeness auto
termination
proof (relation "measure (\<lambda>(db, s). length s)")
  show "wf (measure (\<lambda>(db, s). length s))" by simp
next
  fix db :: ucd and s :: pystr and c r
  assume eq: "dropWhile (isspace db) s = c # r"
  have "length (dropWhile (\<lambda>x. \<not> isspace db x) r) \<le> length r"
    by (rule length_dropWhile_le)
  moreover have "length (c # r) \<le> length s"
    using length_dropWhile_le [of "isspace db" s] eq by simp
  ultimately show "((db, dropWhile (\<lambda>x. \<not> isspace db x) r), (db, s))
      \<in> measure (\<lambda>(db, s). length s)"
    by simp
qed

declare str_split.simps [simp del]

text \<open>\<^verbatim>\<open>sep.join(words)\<close>.\<close>

fun str_join :: "pystr \<Rightarrow> pystr list \<Rightarrow> pystr" where
  "str_join sep [] = []"
| "str_join sep [w] = w"
| "str_join sep (w # v # ws) = w @ sep @ str_join sep (v # ws)"

section \<open>Text cleaning\<close>

text \<open>
  \<^verbatim>\<open>clean_text\<close> of \<^verbatim>\<open>Text Analysis/Text_Sentiment.py\<close> and of
  \<^verbatim>\<open>Speech-Text-Analysis/speech-text.py\<close> (the two bodies are the same). The list
  \<^verbatim>\<open>stopwords.words('english')\<close> is corpus data of the nltk package, downloaded at start-up:
  it is the parameter \<open>stopwords\<close>.
\<close>

definition clean_text :: "ucd \<Rightarrow> pystr list \<Rightarrow> pystr \<Rightarrow> pystr" where
  "clean_text db stopwords text =
     (let text1 = re_sub_nonword db text;
          text2 = str_strip db (str_lower db text1)
      in str_join (pys '' '') [word \<leftarrow> str_split db text2. word \<notin> set stopwords])"

section \<open>Risk categories\<close>

text \<open>A dictionary literal is an association list; \<^verbatim>\<open>d.get(key, default)\<close> never raises.\<close>

definition dict_get :: "('k \<times> 'v) list \<Rightarrow> 'k \<Rightarrow> 'v \<Rightarrow> 'v" where
  "dict_get d key dflt = (case map_of d key of Some v \<Rightarrow> v | None \<Rightarrow> dflt)"

text \<open>A prediction of the classifier: \<^verbatim>\<open>{'label': ..., 'score': ...}\<close>.\<close>

record emotion_score =
  label :: pystr
  score :: real

text \<open>
  \<^verbatim>\<open>health_map\<close> of \<^verbatim>\<open>Text Analysis/Text_Sentiment.py\<close> and of the text mode of
  \<^verbatim>\<open>speech-text.py\<close>: label to (diagnosis, color).
\<close>

definition health_map :: "(pystr \<times> pystr \<times> pystr) list" where
  "health_map =
     [(pys ''sadness'', (pys ''Potential Depression'', pys ''#e74c3c'')),
      (pys ''fear'', (pys ''Anxiety Indicators'', pys ''#3498db'')),
      (pys ''anger'', (pys ''Stress Markers'', pys ''#f1c40f'')),
      (pys ''neutral'', (pys ''Baseline State'', pys ''#2ecc71''))]"

definition health_map_get :: "pystr \<Rightarrow> pystr \<times> pystr" where
  "health_map_get lbl = dict_get health_map lbl (pys ''Other'', pys ''#95a5a6'')"

text \<open>\<^verbatim>\<open>health_map\<close> of the speech mode of \<^verbatim>\<open>speech-text.py\<close>.\<close>

definition health_map_speech_mode :: "(pystr \<times> pystr \<times> pystr) list" where
  "health_map_speech_mode =
     [(pys ''sadness'', (pys ''Depression Risk'', pys ''#e74c3c'')),
      (pys ''fear'', (pys ''Anxiety Signs'', pys ''#3498db'')),
      (pys ''anger'', (pys ''Stress Level'', pys ''#f1c40f'')),
      (pys ''neutral'', (pys ''Baseline State'', pys ''#2ecc71''))]"

definition health_map_speech_mode_get :: "pystr \<Rightarrow> pystr \<times> pystr" where
  "health_map_speech_mode_get lbl =
     dict_get health_map_speech_mode lbl (pys ''Other'', pys ''#95a5a6'')"

text \<open>\<^verbatim>\<open>health_map\<close> of \<^verbatim>\<open>Speech_Sentiment.py\<close>: label to (color, diagnosis).\<close>

definition health_map_speech :: "(pystr \<times> pystr \<times> pystr) list" where
  "health_map_speech =
     [(pys ''sadness'', (pys ''#e74c3c'', pys ''Depression Risk'')),
      (pys ''fear'', (pys ''#3498db'', pys ''Anxiety Signs'')),
      (pys ''anger'', (pys ''#f1c40f'', pys ''Stress Level'')),
      (pys ''neutral'', (pys ''#2ecc71'', pys ''Baseline State''))]"

definition health_map_speech_get :: "pystr \<Rightarrow> pystr \<times> pystr" where
  "health_map_speech_get lbl = dict_get health_map_speech lbl (pys ''#95a5a6'', pys ''Neutral'')"

text \<open>
  The body of the loop \<^verbatim>\<open>for pred in predictions\<close>: what a card shows, namely the label,
  the score, and the two values looked up for the label.
\<close>

definition card :: "emotion_score \<Rightarrow> pystr \<times> real \<times> pystr \<times> pystr" where
  "card pred =
     (let lbl = label pred; sc = score pred; (diagnosis, color) = health_map_get lbl
      in (lbl, sc, diagnosis, color))"

definition card_speech_mode :: "emotion_score \<Rightarrow> pystr \<times> real \<times> pystr \<times> pystr" where
  "card_speech_mode emotion =
     (let lbl = label emotion; sc = score emotion;
          (diagnosis, color) = health_map_speech_mode_get lbl
      in (lbl, sc, diagnosis, color))"

section \<open>The emotion classifier\<close>

text \<open>
  Modelled from the spec: the classifier is the text-classification pipeline of the
  transformers library around a pretrained model; neither is in the repository. By the
  spec, a call tokenises the text, truncates the tokens to the maximum length when
  truncation is asked for, and returns a softmax distribution over the model's labels:
  all of it when the pipeline was built with \<^verbatim>\<open>return_all_scores=True\<close>, else only the
  entry with the highest score. The model supports inputs up to its maximum length
  (512 tokens for the model the applications load); a longer input that was not
  truncated makes the call fail. The tokenizer, the maximum length, the label list and
  the network (which gives one raw score per label) are the fields of \<open>classifier\<close>.
\<close>

record classifier =
  tokenize :: "pystr \<Rightarrow> nat list"
  model_max_length :: nat
  id2label :: "pystr list"
  logits :: "nat list \<Rightarrow> real list"

text \<open>The keyword arguments a call may pass; without them nothing is truncated.\<close>

record call_kwargs =
  truncation :: bool
  max_length :: "nat option"

definition model_input :: "classifier \<Rightarrow> call_kwargs \<Rightarrow> pystr \<Rightarrow> nat list" where
  "model_input m kw text =
     (let ids = tokenize m text
      in if truncation kw
         then take (case max_length kw of Some n \<Rightarrow> n | None \<Rightarrow> model_max_length m) ids
         else ids)"

definition softmax :: "real list \<Rightarrow> real list" where
  "softmax xs = map (\<lambda>x. exp x / sum_list (map exp xs)) xs"

definition all_scores :: "classifier \<Rightarrow> nat list \<Rightarrow> emotion_score list" where
  "all_scores m ids =
     map (\<lambda>(l, s). \<lparr>label = l, score = s\<rparr>) (zip (id2label m) (softmax (logits m ids)))"

text \<open>The first entry with the highest score.\<close>

fun best :: "emotion_score \<Rightarrow> emotion_score list \<Rightarrow> emotion_score" where
  "best b [] = b"
| "best b (e # es) = best (if score b < score e then e else b) es"

text \<open>
  What \<^verbatim>\<open>model(text, ...)[0]\<close> is: the list of all scores, or one score. The call
  fails when more tokens reach the model than it supports, and a model without labels
  has no highest score to give.
\<close>

datatype prediction = AllScores "emotion_score list" | TopScore emotion_score

datatype classifier_error = InputTooLong | NoLabels

definition classify ::
  "bool \<Rightarrow> classifier \<Rightarrow> call_kwargs \<Rightarrow> pystr \<Rightarrow> classifier_error + prediction" where
  "classify return_all_scores m kw text =
     (let ids = model_input m kw text
      in if model_max_length m < length ids then Inl InputTooLong
         else (let ds = all_scores m ids
               in if return_all_scores then Inr (AllScores ds)
                  else (case ds of [] \<Rightarrow> Inl NoLabels
                        | e # es \<Rightarrow> Inr (TopScore (best e es)))))"

text \<open>
  The classification calls of the four applications. \<^verbatim>\<open>Text Analysis/Text_Sentiment.py\<close>
  (\<^verbatim>\<open>main_interface\<close>) and the text mode of \<^verbatim>\<open>speech-text.py\<close> call
  \<^verbatim>\<open>model(cleaned_text, truncation=True, max_length=512)[0]\<close> on a pipeline built with
  \<^verbatim>\<open>return_all_scores=True\<close>.
\<close>

definition text_kwargs :: call_kwargs where
  "text_kwargs = \<lparr>truncation = True, max_length = Some 512\<rparr>"

definition main_interface_predictions ::
  "ucd \<Rightarrow> pystr list \<Rightarrow> classifier \<Rightarrow> pystr \<Rightarrow> classifier_error + prediction" where
  "main_interface_predictions db stopwords m text =
     (let cleaned_text = clean_text db stopwords text
      in classify True m text_kwargs cleaned_text)"

text \<open>
  The speech mode of \<^verbatim>\<open>speech-text.py\<close> and \<^verbatim>\<open>Speech_Sentiment.py\<close> call
  \<^verbatim>\<open>models['emotion_model'](result["text"])\<close>, with no keyword argument, on a pipeline
  built with \<^verbatim>\<open>return_all_scores=True\<close>; the transcript comes from the speech recogniser.
\<close>

definition speech_kwargs :: call_kwargs where
  "speech_kwargs = \<lparr>truncation = False, max_length = None\<rparr>"

definition speech_emotions :: "classifier \<Rightarrow> pystr \<Rightarrow> classifier_error + prediction" where
  "speech_emotions m transcript = classify True m speech_kwargs transcript"

text \<open>
  \<^verbatim>\<open>Speech-Text-Analysis/Text_Sentiment.py\<close> builds the pipeline without
  \<^verbatim>\<open>return_all_scores\<close>, calls \<^verbatim>\<open>models['emotion_model'](transcription)[0]\<close> and reads
  \<^verbatim>\<open>emotions['label']\<close> and \<^verbatim>\<open>emotions['score']\<close> of the one record it gets.
\<close>

definition text_sentiment_emotions :: "classifier \<Rightarrow> pystr \<Rightarrow> classifier_error + prediction" where
  "text_sentiment_emotions m transcription = classify False m speech_kwargs transcription"

text \<open>Whether a prediction has a record for every one of the given labels.\<close>

fun predicted_labels :: "prediction \<Rightarrow> pystr list" where
  "predicted_labels (AllScores ds) = map label ds"
| "predicted_labels (TopScore e) = [label e]"

section \<open>Data for the worked examples\<close>

text \<open>
  An excerpt of the Unicode database: the Latin-1 supplement, and U+0130 (capital I with
  dot above), whose lowercase form is the two characters U+0069 U+0307. Any other code
  point above 127 is answered as a caseless symbol. Only the closed examples use it.
\<close>

definition ucd_excerpt :: ucd where
  "ucd_excerpt =
     \<lparr> uni_isalnum = (\<lambda>c. c \<in> {170, 178, 179, 181, 185, 186, 188, 189, 190, 304}
                          \<or> (192 \<le> c \<and> c \<le> 255 \<and> c \<noteq> 215 \<and> c \<noteq> 247)),
       uni_isspace = (\<lambda>c. c = 133 \<or> c = 160),
       uni_lower = (\<lambda>s i. let c = s ! i in
                      if c = 304 then [105, 775]
                      else if 192 \<le> c \<and> c \<le> 222 \<and> c \<noteq> 215 then [c + 32]
                      else [c]) \<rparr>"

text \<open>The English stopword list that nltk ships.\<close>

definition english_stopwords :: "pystr list" where
  "english_stopwords = map pys
     [''i'', ''me'', ''my'', ''myself'', ''we'', ''our'', ''ours'', ''ourselves'', ''you'',
      ''you're'', ''you've'', ''you'll'', ''you'd'', ''your'', ''yours'', ''yourself'',
      ''yourselves'', ''he'', ''him'', ''his'', ''himself'', ''she'', ''she's'', ''her'',
      ''hers'', ''herself'', ''it'', ''it's'', ''its'', ''itself'', ''they'', ''them'',
      ''their'', ''theirs'', ''themselves'', ''what'', ''which'', ''who'', ''whom'', ''this'',
      ''that'', ''that'll'', ''these'', ''those'', ''am'', ''is'', ''are'', ''was'', ''were'',
      ''be'', ''been'', ''being'', ''have'', ''has'', ''had'', ''having'', ''do'', ''does'',
      ''did'', ''doing'', ''a'', ''an'', ''the'', ''and'', ''but'', ''if'', ''or'',
      ''because'', ''as'', ''until'', ''while'', ''of'', ''at'', ''by'', ''for'', ''with'',
      ''about'', ''against'', ''between'', ''into'', ''through'', ''during'', ''before'',
      ''after'', ''above'', ''below'', ''to'', ''from'', ''up'', ''down'', ''in'', ''out'',
      ''on'', ''off'', ''over'', ''under'', ''again'', ''further'', ''then'', ''once'',
      ''here'', ''there'', ''when'', ''where'', ''why'', ''how'', ''all'', ''any'', ''both'',
      ''each'', ''few'', ''more'', ''most'', ''other'', ''some'', ''such'', ''no'', ''nor'',
      ''not'', ''only'', ''own'', ''same'', ''so'', ''than'', ''too'', ''very'', ''s'', ''t'',
      ''can'', ''will'', ''just'', ''don'', ''don't'', ''should'', ''should've'', ''now'',
      ''d'', ''ll'', ''m'', ''o'', ''re'', ''ve'', ''y'', ''ain'', ''aren'', ''aren't'',
      ''couldn'', ''couldn't'', ''didn'', ''didn't'', ''doesn'', ''doesn't'', ''hadn'',
      ''hadn't'', ''hasn'', ''hasn't'', ''haven'', ''haven't'', ''isn'', ''isn't'', ''ma'',
      ''mightn'', ''mightn't'', ''mustn'', ''mustn't'', ''needn'', ''needn't'', ''shan'',
      ''shan't'', ''shouldn'', ''shouldn't'', ''wasn'', ''wasn't'', ''weren'', ''weren't'',
      ''won'', ''won't'', ''wouldn'', ''wouldn't'']"

text \<open>
  A stand-in classifier with the seven labels of the model the applications load, one
  token per character, and raw scores that make sadness four times as likely as each
  other label.
\<close>

definition sample_classifier :: classifier where
  "sample_classifier =
     \<lparr> tokenize = (\<lambda>s. s), model_max_length = 512,
       id2label = map pys [''anger'', ''disgust'', ''fear'', ''joy'', ''neutral'',
                           ''sadness'', ''surprise''],
       logits = (\<lambda>ids. [0, 0, 0, 0, 0, ln 4, 0]) \<rparr>"

section \<open>Auxiliary notions\<close>

text \<open>A word as \<^verbatim>\<open>split\<close> produces it: not empty and free of whitespace.\<close>

definition token :: "ucd \<Rightarrow> pystr \<Rightarrow> bool" where
  "token db w = (w \<noteq> [] \<and> list_all (\<lambda>c. \<not> isspace db c) w)"

text \<open>The number of characters of a list of words, one separator counted after each.\<close>

definition total :: "pystr list \<Rightarrow> nat" where
  "total ws = sum_list (map (\<lambda>w. Suc (length w)) ws)"

section \<open>Splitting and joining\<close>

lemma isspace_32: "isspace db 32"
  by (simp add: isspace_def ascii_isspace_def)

lemma pys_space: "pys '' '' = [32]"
  by (simp add: pys_def)

lemma str_split_Nil: "str_split db [] = []"
  by (simp add: str_split.simps)

lemma str_split_space: "isspace db c \<Longrightarrow> str_split db (c # s) = str_split db s"
  by (subst str_split.simps, subst (2) str_split.simps) simp

lemma str_split_nonspace:
  "\<not> isspace db c \<Longrightarrow>
   str_split db (c # s) = (c # takeWhile (\<lambda>x. \<not> isspace db x) s)
      # str_split db (dropWhile (\<lambda>x. \<not> isspace db x) s)"
  by (subst str_split.simps) simp

lemma str_split_induct [consumes 0, case_names Nil Space Word]:
  assumes "P []"
    and "\<And>c s. isspace db c \<Longrightarrow> P s \<Longrightarrow> P (c # s)"
    and "\<And>c s. \<not> isspace db c \<Longrightarrow> P (dropWhile (\<lambda>x. \<not> isspace db x) s) \<Longrightarrow> P (c # s)"
  shows "P s"
proof (induction s rule: length_induct)
  case (1 s)
  show ?case
  proof (cases s)
    case Nil
    then show ?thesis using assms(1) by simp
  next
    case (Cons c r)
    show ?thesis
    proof (cases "isspace db c")
      case True
      then show ?thesis using assms(2) 1 Cons by simp
    next
      case False
      have "length (dropWhile (\<lambda>x. \<not> isspace db x) r) < length s"
        using length_dropWhile_le [of "\<lambda>x. \<not> isspace db x" r] Cons by simp
      then show ?thesis using assms(3) [OF False] 1 Cons by simp
    qed
  qed
qed


lemma str_split_tokens: "list_all (token db) (str_split db s)"
proof (induction s rule: str_split_induct [where db = db])
  case Nil
  then show ?case by (simp add: str_split_Nil)
next
  case (Space c s)
  then show ?case by (simp add: str_split_space)
next
  case (Word c s)
  have "list_all (\<lambda>c. \<not> isspace db c) (takeWhile (\<lambda>x. \<not> isspace db x) s)"
    by (auto simp: list_all_iff dest: set_takeWhileD)
  then show ?case using Word by (simp add: str_split_nonspace token_def)
qed

lemma str_split_chars: "w \<in> set (str_split db s) \<Longrightarrow> set w \<subseteq> set s"
proof (induction s rule: str_split_induct [where db = db])
  case Nil
  then show ?case by (simp add: str_split_Nil)
next
  case (Space c s)
  then show ?case by (auto simp: str_split_space)
next
  case (Word c s)
  from Word.prems consider "w = c # takeWhile (\<lambda>x. \<not> isspace db x) s"
    | "w \<in> set (str_split db (dropWhile (\<lambda>x. \<not> isspace db x) s))"
    using Word.hyps by (auto simp: str_split_nonspace)
  then show ?case
  proof cases
    case 1
    then show ?thesis by (auto dest: set_takeWhileD)
  next
    case 2
    then have "set w \<subseteq> set (dropWhile (\<lambda>x. \<not> isspace db x) s)" by (rule Word.IH)
    then show ?thesis by (auto dest: set_dropWhileD)
  qed
qed

lemma str_split_token_append:
  assumes "token db w" and "s = [] \<or> isspace db (hd s)"
  shows "str_split db (w @ s) = w # str_split db s"
proof -
  from assms(1) obtain c r where w: "w = c # r" and c: "\<not> isspace db c"
    and r: "\<forall>x\<in>set r. \<not> isspace db x"
    by (cases w) (auto simp: token_def list_all_iff)
  have tw: "takeWhile (\<lambda>x. \<not> isspace db x) (r @ s) = r"
    using r assms(2) by (cases s) (auto simp: takeWhile_eq_all_conv)
  have dw: "dropWhile (\<lambda>x. \<not> isspace db x) (r @ s) = s"
    using r assms(2) by (cases s) (auto simp: dropWhile_eq_Nil_conv)
  show ?thesis using c by (simp add: w str_split_nonspace tw dw)
qed

lemma str_split_join:
  "list_all (token db) ws \<Longrightarrow> str_split db (str_join [32] ws) = ws"
proof (induction "[32::nat]" ws rule: str_join.induct)
  case 1
  then show ?case by (simp add: str_split_Nil)
next
  case (2 w)
  then show ?case using str_split_token_append [of db w "[]"] by (simp add: str_split_Nil)
next
  case (3 w v ws)
  have "str_split db (w @ 32 # str_join [32] (v # ws)) = w # str_split db (32 # str_join [32] (v # ws))"
    using 3 by (intro str_split_token_append) (simp_all add: isspace_32)
  then show ?case using 3 by (simp add: str_split_space isspace_32)
qed

lemma str_split_trailing:
  "list_all (isspace db) t \<Longrightarrow> str_split db (s @ t) = str_split db s"
proof (induction s rule: str_split_induct [where db = db])
  case Nil
  then show ?case
    by (induction t) (simp_all add: str_split_Nil str_split_space)
next
  case (Space c s)
  then show ?case by (simp add: str_split_space)
next
  case (Word c s)
  let ?n = "\<lambda>x. \<not> isspace db x"
  show ?case
  proof (cases "\<forall>x\<in>set s. ?n x")
    case True
    have t0: "str_split db t = []"
      using Word.prems by (induction t) (simp_all add: str_split_Nil str_split_space)
    have a: "takeWhile ?n (s @ t) = s"
      using True Word.prems by (cases t) (auto simp: takeWhile_eq_all_conv)
    have b: "dropWhile ?n (s @ t) = t"
      using True Word.prems by (cases t) (auto simp: dropWhile_eq_Nil_conv)
    have c: "takeWhile ?n s = s" and d: "dropWhile ?n s = []"
      using True by (simp_all add: takeWhile_eq_all_conv)
    have "str_split db ((c # s) @ t) = [c # s]"
      using Word.hyps by (simp add: str_split_nonspace a b t0)
    moreover have "str_split db (c # s) = [c # s]"
      using Word.hyps by (simp add: str_split_nonspace c d str_split_Nil)
    ultimately show ?thesis by simp
  next
    case False
    then have "takeWhile ?n (s @ t) = takeWhile ?n s"
      and "dropWhile ?n (s @ t) = dropWhile ?n s @ t"
      by (auto simp: takeWhile_append1 dropWhile_append1)
    then show ?thesis
      using Word by (simp add: str_split_nonspace)
  qed
qed

lemma str_split_leading: "str_split db (dropWhile (isspace db) s) = str_split db s"
  by (induction s) (simp_all add: str_split_space)

lemma str_split_strip: "str_split db (str_strip db s) = str_split db s"
proof -
  let ?d = "dropWhile (isspace db) s"
  have "?d = rev (dropWhile (isspace db) (rev ?d)) @ rev (takeWhile (isspace db) (rev ?d))"
    by (metis rev_append rev_rev_ident takeWhile_dropWhile_id)
  moreover have "list_all (isspace db) (rev (takeWhile (isspace db) (rev ?d)))"
    by (auto simp: list_all_iff dest: set_takeWhileD)
  ultimately have "str_split db ?d = str_split db (str_strip db s)"
    unfolding str_strip_def by (metis str_split_trailing)
  then show ?thesis by (simp add: str_split_leading)
qed

section \<open>What cleaning does to tokens, characters and length\<close>

lemma length_str_join: "length (str_join [32] ws) = total ws - 1"
  by (induction "[32::nat]" ws rule: str_join.induct) (simp_all add: total_def)

lemma total_filter: "total (filter P ws) \<le> total ws"
  by (induction ws) (simp_all add: total_def)

lemma total_str_split:
  "total (str_split db s) \<le> length s + (if s = [] \<or> isspace db (hd s) then 0 else 1)"
proof (induction s rule: str_split_induct [where db = db])
  case Nil
  then show ?case by (simp add: str_split_Nil total_def)
next
  case (Space c s)
  then show ?case by (simp add: str_split_space split: if_splits)
next
  case (Word c s)
  let ?n = "\<lambda>x. \<not> isspace db x"
  have hd: "dropWhile ?n s = [] \<or> isspace db (hd (dropWhile ?n s))"
    using hd_dropWhile [of ?n s] by auto
  then have "total (str_split db (dropWhile ?n s)) \<le> length (dropWhile ?n s)"
    using Word.IH by auto
  moreover have "length (takeWhile ?n s) + length (dropWhile ?n s) = length s"
    by (metis length_append takeWhile_dropWhile_id)
  ultimately show ?case
    using Word.hyps by (simp add: str_split_nonspace total_def)
qed

lemma length_join_split:
  "length (str_join [32] (filter P (str_split db s))) \<le> length s"
proof -
  have "total (filter P (str_split db s)) \<le> Suc (length s)"
    using total_filter [of P "str_split db s"] total_str_split [of db s]
    by (simp split: if_splits)
  then show ?thesis by (simp add: length_str_join)
qed

lemma length_str_strip: "length (str_strip db s) \<le> length s"
  unfolding str_strip_def
  by (metis length_dropWhile_le length_rev order_trans)

lemma length_re_sub: "length (re_sub_nonword db t) \<le> length t"
  by (simp add: re_sub_nonword_def)

lemma tokens_clean:
  "str_split db (clean_text db sw t)
     = [w \<leftarrow> str_split db (str_lower db (re_sub_nonword db t)). w \<notin> set sw]"
proof -
  let ?u = "str_lower db (re_sub_nonword db t)"
  have "list_all (token db) [w \<leftarrow> str_split db (str_strip db ?u). w \<notin> set sw]"
    using str_split_tokens [of db "str_strip db ?u"] by (simp add: list_all_iff)
  then show ?thesis
    by (simp add: clean_text_def Let_def pys_space str_split_join str_split_strip)
qed

lemma set_str_join: "set (str_join sep ws) \<subseteq> set sep \<union> \<Union> (set ` set ws)"
  by (induction sep ws rule: str_join.induct) auto

lemma set_str_strip: "set (str_strip db s) \<subseteq> set s"
  unfolding str_strip_def by (auto dest!: set_dropWhileD)

lemma clean_chars:
  "set (clean_text db sw t) \<subseteq> insert 32 (set (str_lower db (re_sub_nonword db t)))"
proof
  fix x assume "x \<in> set (clean_text db sw t)"
  then have "x = 32 \<or> (\<exists>w \<in> set (str_split db (str_strip db (str_lower db (re_sub_nonword db t)))). x \<in> set w)"
    using set_str_join [of "[32]" "[w \<leftarrow> str_split db (str_strip db (str_lower db (re_sub_nonword db t))). w \<notin> set sw]"]
    by (auto simp: clean_text_def Let_def pys_space)
  then show "x \<in> insert 32 (set (str_lower db (re_sub_nonword db t)))"
    using str_split_chars set_str_strip by fastforce
qed

lemma clean_text_length_le:
  assumes "length (str_lower db (re_sub_nonword db t)) \<le> length (re_sub_nonword db t)"
  shows "length (clean_text db sw t) \<le> length t"
proof -
  let ?u = "str_lower db (re_sub_nonword db t)"
  have "length (clean_text db sw t) \<le> length (str_strip db ?u)"
    by (simp add: clean_text_def Let_def pys_space length_join_split)
  also have "\<dots> \<le> length ?u" by (rule length_str_strip)
  also have "\<dots> \<le> length (re_sub_nonword db t)" by (rule assms)
  also have "\<dots> \<le> length t" by (rule length_re_sub)
  finally show ?thesis .
qed

lemma clean_text_fixed:
  assumes h1: "list_all (\<lambda>c. re_word db c \<or> re_space db c) (str_lower db (re_sub_nonword db t))"
    and h2: "str_lower db (clean_text db sw t) = clean_text db sw t"
  shows "clean_text db sw (clean_text db sw t) = clean_text db sw t"
proof -
  let ?c = "clean_text db sw t"
  let ?toks = "[w \<leftarrow> str_split db (str_lower db (re_sub_nonword db t)). w \<notin> set sw]"
  have "\<forall>x\<in>set ?c. re_word db x \<or> re_space db x"
    using clean_chars [of db sw t] h1 by (auto simp: list_all_iff re_space_def isspace_32)
  then have sub: "re_sub_nonword db ?c = ?c"
    by (simp add: re_sub_nonword_def)
  have toks: "str_split db ?c = ?toks" by (rule tokens_clean)
  have c: "?c = str_join [32] ?toks"
    by (simp add: clean_text_def Let_def pys_space str_split_strip)
  have "clean_text db sw ?c = str_join [32] [w \<leftarrow> str_split db (str_strip db ?c). w \<notin> set sw]"
    by (simp add: clean_text_def [of db sw ?c] Let_def sub h2 pys_space)
  also have "\<dots> = str_join [32] [w \<leftarrow> ?toks. w \<notin> set sw]"
    by (simp only: str_split_strip toks)
  also have "\<dots> = str_join [32] ?toks" by simp
  finally show ?thesis using c by simp
qed

lemma clean_text_no_stopword:
  "w \<in> set (str_split db (clean_text db sw t)) \<Longrightarrow> w \<notin> set sw"
  by (simp add: tokens_clean)

subsection \<open>Texts of ASCII characters\<close>

lemma str_lower_ascii:
  assumes "list_all (\<lambda>c. c < 128) s"
  shows "str_lower db s = map ascii_lower s"
proof -
  have "map (lower_at db s) [0..<length s] = map (\<lambda>i. [ascii_lower (s ! i)]) [0..<length s]"
    using assms by (simp add: lower_at_def list_all_length)
  then have "str_lower db s = concat (map (\<lambda>i. [ascii_lower (s ! i)]) [0..<length s])"
    by (simp only: str_lower_def)
  also have "\<dots> = map (\<lambda>i. ascii_lower (s ! i)) [0..<length s]"
    by (rule concat_map_singleton)
  also have "\<dots> = map ascii_lower (map ((!) s) [0..<length s])" by simp
  also have "\<dots> = map ascii_lower s" by (simp only: map_nth)
  finally show ?thesis .
qed

lemma ascii_lower_keeps:
  assumes "c < 128" and "re_word db c \<or> re_space db c"
  shows "ascii_lower c < 128 \<and> (re_word db (ascii_lower c) \<or> re_space db (ascii_lower c))
     \<and> ascii_lower (ascii_lower c) = ascii_lower c"
proof (cases "65 \<le> c \<and> c \<le> 90")
  case True
  then show ?thesis
    by (simp add: ascii_lower_def re_word_def isalnum_def ascii_isalnum_def)
next
  case False
  then show ?thesis using assms by (auto simp: ascii_lower_def)
qed

lemma ascii_lowered:
  assumes "list_all (\<lambda>c. c < 128) t"
  shows "str_lower db (re_sub_nonword db t) = map ascii_lower (re_sub_nonword db t)"
    and "list_all (\<lambda>c. c < 128 \<and> (re_word db c \<or> re_space db c) \<and> ascii_lower c = c)
           (str_lower db (re_sub_nonword db t))"
proof -
  have a: "list_all (\<lambda>c. c < 128) (re_sub_nonword db t)"
    using assms by (simp add: re_sub_nonword_def list_all_iff)
  show eq: "str_lower db (re_sub_nonword db t) = map ascii_lower (re_sub_nonword db t)"
    using a by (rule str_lower_ascii)
  have "\<forall>x\<in>set (map ascii_lower (re_sub_nonword db t)).
          x < 128 \<and> (re_word db x \<or> re_space db x) \<and> ascii_lower x = x"
  proof
    fix x assume "x \<in> set (map ascii_lower (re_sub_nonword db t))"
    then obtain c where c: "c \<in> set (re_sub_nonword db t)" and x: "x = ascii_lower c" by auto
    from c have "c < 128" using a by (simp add: list_all_iff)
    moreover from c have "re_word db c \<or> re_space db c" by (simp add: re_sub_nonword_def)
    ultimately show "x < 128 \<and> (re_word db x \<or> re_space db x) \<and> ascii_lower x = x"
      unfolding x by (rule ascii_lower_keeps)
  qed
  then show "list_all (\<lambda>c. c < 128 \<and> (re_word db c \<or> re_space db c) \<and> ascii_lower c = c)
           (str_lower db (re_sub_nonword db t))"
    by (simp only: eq list_all_iff)
qed

lemma ascii_clean_fixed:
  assumes "list_all (\<lambda>c. c < 128) t"
  shows "str_lower db (clean_text db sw t) = clean_text db sw t"
proof -
  have all: "\<forall>c\<in>set (clean_text db sw t). c < 128 \<and> ascii_lower c = c"
  proof
    fix c assume "c \<in> set (clean_text db sw t)"
    then have "c = 32 \<or> c \<in> set (str_lower db (re_sub_nonword db t))"
      using clean_chars [of db sw t] by blast
    then show "c < 128 \<and> ascii_lower c = c"
    proof
      assume "c = 32"
      then show ?thesis by (simp add: ascii_lower_def)
    next
      assume "c \<in> set (str_lower db (re_sub_nonword db t))"
      then show ?thesis using ascii_lowered(2) [OF assms, of db] by (simp add: list_all_iff)
    qed
  qed
  then have "list_all (\<lambda>c. c < 128) (clean_text db sw t)" by (simp add: list_all_iff)
  then have "str_lower db (clean_text db sw t) = map ascii_lower (clean_text db sw t)"
    by (rule str_lower_ascii)
  also have "\<dots> = clean_text db sw t" using all by (simp add: map_idI)
  finally show ?thesis .
qed

lemma clean_text_ascii:
  assumes "list_all (\<lambda>c. c < 128) t"
  shows "clean_text db sw (clean_text db sw t) = clean_text db sw t"
    and "length (clean_text db sw t) \<le> length t"
proof -
  have "list_all (\<lambda>c. re_word db c \<or> re_space db c) (str_lower db (re_sub_nonword db t))"
    using ascii_lowered(2) [OF assms, of db] by (simp add: list_all_iff)
  then show "clean_text db sw (clean_text db sw t) = clean_text db sw t"
    using ascii_clean_fixed [OF assms] by (rule clean_text_fixed)
  have "length (str_lower db (re_sub_nonword db t)) \<le> length (re_sub_nonword db t)"
    by (simp add: ascii_lowered(1) [OF assms])
  then show "length (clean_text db sw t) \<le> length t" by (rule clean_text_length_le)
qed

section \<open>The softmax distribution\<close>

lemma sum_exp_nonneg: "0 \<le> sum_list (map exp (xs :: real list))"
  by (induction xs) (simp_all add: add_nonneg_nonneg)

lemma sum_exp_pos: "xs \<noteq> [] \<Longrightarrow> 0 < sum_list (map exp (xs :: real list))"
  using sum_exp_nonneg by (cases xs) (simp_all add: add_pos_nonneg)

lemma exp_le_sum: "x \<in> set xs \<Longrightarrow> exp x \<le> sum_list (map exp (xs :: real list))"
proof (induction xs)
  case Nil
  then show ?case by simp
next
  case (Cons a xs)
  have "0 \<le> sum_list (map exp xs)" by (rule sum_exp_nonneg)
  moreover have "0 < exp a" by simp
  ultimately show ?case using Cons by (auto simp: add_increasing add_increasing2 less_imp_le)
qed

lemma length_softmax: "length (softmax xs) = length xs"
  by (simp add: softmax_def)

lemma softmax_range: "y \<in> set (softmax xs) \<Longrightarrow> 0 < y \<and> y \<le> 1"
proof -
  assume "y \<in> set (softmax xs)"
  then obtain x where x: "x \<in> set xs" and y: "y = exp x / sum_list (map exp xs)"
    by (auto simp: softmax_def)
  have "xs \<noteq> []" using x by auto
  then have pos: "0 < sum_list (map exp xs)" by (rule sum_exp_pos)
  have "exp x \<le> sum_list (map exp xs)" using x by (rule exp_le_sum)
  then show ?thesis using pos y by simp
qed

lemma sum_softmax: "xs \<noteq> [] \<Longrightarrow> sum_list (softmax xs) = 1"
proof -
  assume ne: "xs \<noteq> []"
  have "sum_list (map (\<lambda>x. exp x / c) xs) = sum_list (map exp xs) / c" for c :: real
    by (induction xs) (simp_all add: add_divide_distrib)
  then have "sum_list (softmax xs) = sum_list (map exp xs) / sum_list (map exp xs)"
    by (simp add: softmax_def)
  then show ?thesis using sum_exp_pos [OF ne] by simp
qed

lemma all_scores_labels:
  "length (logits m ids) = length (id2label m) \<Longrightarrow> map label (all_scores m ids) = id2label m"
  by (simp add: all_scores_def length_softmax map_fst_zip split_def comp_def)

lemma all_scores_scores:
  "length (logits m ids) = length (id2label m) \<Longrightarrow> map score (all_scores m ids) = softmax (logits m ids)"
  by (simp add: all_scores_def length_softmax map_snd_zip split_def comp_def)

lemma best_mem: "best b es \<in> set (b # es)"
  by (induction es arbitrary: b) (auto split: if_splits)

lemma best_max: "d \<in> set (b # es) \<Longrightarrow> score d \<le> score (best b es)"
proof (induction es arbitrary: b d)
  case Nil
  then show ?case by simp
next
  case (Cons e es)
  let ?b = "if score b < score e then e else b"
  have b: "score b \<le> score ?b" and e: "score e \<le> score ?b" by simp_all
  have top: "score ?b \<le> score (best ?b es)" by (rule Cons.IH) simp
  from Cons.prems consider "d = b" | "d = e" | "d \<in> set es" by auto
  then show ?case
  proof cases
    case 1
    then show ?thesis using b top by simp
  next
    case 2
    then show ?thesis using e top by simp
  next
    case 3
    then have "score d \<le> score (best ?b es)" by (intro Cons.IH) simp
    then show ?thesis by simp
  qed
qed

lemma all_scores_distribution:
  assumes "id2label m \<noteq> []" and "\<forall>ids. length (logits m ids) = length (id2label m)"
  shows "map label (all_scores m ids) = id2label m
     \<and> list_all (\<lambda>e. 0 \<le> score e \<and> score e \<le> 1) (all_scores m ids)
     \<and> sum_list (map score (all_scores m ids)) = 1"
proof -
  let ?ds = "all_scores m ids"
  have len: "length (logits m ids) = length (id2label m)" using assms(2) by simp
  have sc: "map score ?ds = softmax (logits m ids)" using len by (rule all_scores_scores)
  have ne: "logits m ids \<noteq> []" using len assms(1) by auto
  have "\<forall>e\<in>set ?ds. 0 \<le> score e \<and> score e \<le> 1"
  proof
    fix e assume "e \<in> set ?ds"
    then have "score e \<in> set (map score ?ds)" by simp
    then have "score e \<in> set (softmax (logits m ids))" by (simp only: sc)
    then show "0 \<le> score e \<and> score e \<le> 1" using softmax_range by fastforce
  qed
  moreover have "sum_list (map score ?ds) = 1" using sum_softmax [OF ne] by (simp only: sc)
  moreover have "map label ?ds = id2label m" using len by (rule all_scores_labels)
  ultimately show ?thesis by (simp add: list_all_iff)
qed

lemma classify_too_long:
  "model_max_length m < length (model_input m kw text) \<Longrightarrow>
   classify r m kw text = Inl InputTooLong"
  by (simp add: classify_def)

lemma classify_all_scores:
  assumes "length (model_input m kw text) \<le> model_max_length m"
  shows "classify True m kw text = Inr (AllScores (all_scores m (model_input m kw text)))"
  using assms by (simp add: classify_def)

lemma classify_top_score:
  assumes "id2label m \<noteq> []" and "\<forall>ids. length (logits m ids) = length (id2label m)"
    and "length (model_input m kw text) \<le> model_max_length m"
  shows "\<exists>e. classify False m kw text = Inr (TopScore e)
           \<and> e \<in> set (all_scores m (model_input m kw text))
           \<and> list_all (\<lambda>d. score d \<le> score e) (all_scores m (model_input m kw text))"
proof -
  let ?ds = "all_scores m (model_input m kw text)"
  have "map label ?ds = id2label m"
    using all_scores_distribution [OF assms(1,2)] by simp
  then have "?ds \<noteq> []" using assms(1) by auto
  then obtain d ds where ds: "?ds = d # ds" by (cases ?ds) auto
  have "classify False m kw text = Inr (TopScore (best d ds))"
    using assms(3) by (simp add: classify_def ds)
  moreover have "best d ds \<in> set ?ds" using best_mem [of d ds] by (simp only: ds)
  moreover have "list_all (\<lambda>x. score x \<le> score (best d ds)) ?ds"
    unfolding ds list_all_iff using best_max [of _ d ds] by blast
  ultimately show ?thesis by blast
qed

lemma speech_emotions_too_long:
  "model_max_length m < length (tokenize m transcript) \<Longrightarrow>
   speech_emotions m transcript = Inl InputTooLong
   \<and> text_sentiment_emotions m transcript = Inl InputTooLong"
  by (simp add: speech_emotions_def text_sentiment_emotions_def classify_def
      model_input_def speech_kwargs_def)

section \<open>The classification call\<close>

text \<open>
  Claim C1. Every classification call truncates its input to at most 512 tokens, on the
  text path and on the audio path. The text path does: its call passes
  \<^verbatim>\<open>truncation=True, max_length=512\<close>, so at most 512 tokens reach the model. The
  audio path passes no keyword argument: the model receives every token of the
  transcript, 513 of them for a transcript of 513 tokens.
\<close>

theorem speech_call_not_truncated:
  "length (model_input m text_kwargs text) \<le> 512
   \<and> model_input m speech_kwargs transcript = tokenize m transcript
   \<and> length (model_input sample_classifier speech_kwargs (replicate 513 97)) = 513"
  by (simp add: model_input_def text_kwargs_def speech_kwargs_def sample_classifier_def)

text \<open>
  Claim C2 as stated fails in \<^verbatim>\<open>Speech-Text-Analysis/Text_Sentiment.py\<close>: its
  pipeline is built without \<^verbatim>\<open>return_all_scores\<close>, so the call yields the single
  highest-scoring record, which does not cover the seven labels.
\<close>

theorem text_sentiment_single_score:
  "text_sentiment_emotions sample_classifier (pys ''hello'')
     = Inr (TopScore \<lparr>label = pys ''sadness'', score = 2 / 5\<rparr>)
   \<and> \<not> set (id2label sample_classifier)
        \<subseteq> set (predicted_labels (TopScore \<lparr>label = pys ''sadness'', score = 2 / 5\<rparr>))"
  by (simp add: text_sentiment_emotions_def classify_def all_scores_def model_input_def
      sample_classifier_def softmax_def speech_kwargs_def pys_def)

text \<open>
  Claim C2, amended. Take a classifier that has labels, gives one raw score per label
  and supports at least 512 tokens. On the text path (the call truncates to 512
  tokens) every input text gets one record per label, in the order of the model's
  labels, every confidence in [0,1] and the confidences summing to 1 (scores are real
  numbers here, so the sum is exact). On the audio path nothing is truncated, and the
  same holds for every transcript that has no more tokens than the model supports. For
  such a transcript \<^verbatim>\<open>Speech-Text-Analysis/Text_Sentiment.py\<close>, whose pipeline is built
  without \<^verbatim>\<open>return_all_scores\<close>, gets a single record: the one of these records whose
  confidence is highest.
\<close>

theorem classification_result:
  assumes "id2label m \<noteq> []" and "\<forall>ids. length (logits m ids) = length (id2label m)"
    and "512 \<le> model_max_length m"
    and "length (tokenize m transcript) \<le> model_max_length m"
  shows "(\<exists>ds. main_interface_predictions db sw m text = Inr (AllScores ds)
            \<and> map label ds = id2label m
            \<and> list_all (\<lambda>e. 0 \<le> score e \<and> score e \<le> 1) ds \<and> sum_list (map score ds) = 1)
       \<and> (\<exists>ds. speech_emotions m transcript = Inr (AllScores ds)
            \<and> map label ds = id2label m
            \<and> list_all (\<lambda>e. 0 \<le> score e \<and> score e \<le> 1) ds \<and> sum_list (map score ds) = 1
            \<and> (\<exists>e. text_sentiment_emotions m transcript = Inr (TopScore e)
                  \<and> e \<in> set ds \<and> list_all (\<lambda>d. score d \<le> score e) ds
                  \<and> label e \<in> set (id2label m) \<and> 0 \<le> score e \<and> score e \<le> 1))"
proof (rule conjI)
  let ?ids = "model_input m text_kwargs (clean_text db sw text)"
  have "length ?ids \<le> 512" by (simp add: model_input_def text_kwargs_def)
  then have "length ?ids \<le> model_max_length m" using assms(3) by simp
  then have "main_interface_predictions db sw m text = Inr (AllScores (all_scores m ?ids))"
    unfolding main_interface_predictions_def Let_def by (rule classify_all_scores)
  then show "\<exists>ds. main_interface_predictions db sw m text = Inr (AllScores ds)
            \<and> map label ds = id2label m
            \<and> list_all (\<lambda>e. 0 \<le> score e \<and> score e \<le> 1) ds \<and> sum_list (map score ds) = 1"
    using all_scores_distribution [OF assms(1,2), of ?ids] by blast
next
  let ?ids = "model_input m speech_kwargs transcript"
  let ?ds = "all_scores m ?ids"
  have fit: "length ?ids \<le> model_max_length m"
    using assms(4) by (simp add: model_input_def speech_kwargs_def)
  have all: "speech_emotions m transcript = Inr (AllScores ?ds)"
    unfolding speech_emotions_def using fit by (rule classify_all_scores)
  have dist: "map label ?ds = id2label m
     \<and> list_all (\<lambda>e. 0 \<le> score e \<and> score e \<le> 1) ?ds \<and> sum_list (map score ?ds) = 1"
    by (rule all_scores_distribution [OF assms(1,2)])
  obtain e where top: "text_sentiment_emotions m transcript = Inr (TopScore e)"
    and mem: "e \<in> set ?ds" and high: "list_all (\<lambda>d. score d \<le> score e) ?ds"
    unfolding text_sentiment_emotions_def
    using classify_top_score [OF assms(1,2) fit] by blast
  from mem have "label e \<in> set (map label ?ds)" by (simp only: set_map) (rule imageI)
  then have lbl: "label e \<in> set (id2label m)" using dist by simp
  have rng: "0 \<le> score e \<and> score e \<le> 1" using dist mem by (simp add: list_all_iff)
  show "\<exists>ds. speech_emotions m transcript = Inr (AllScores ds)
            \<and> map label ds = id2label m
            \<and> list_all (\<lambda>e. 0 \<le> score e \<and> score e \<le> 1) ds \<and> sum_list (map score ds) = 1
            \<and> (\<exists>e. text_sentiment_emotions m transcript = Inr (TopScore e)
                  \<and> e \<in> set ds \<and> list_all (\<lambda>d. score d \<le> score e) ds
                  \<and> label e \<in> set (id2label m) \<and> 0 \<le> score e \<and> score e \<le> 1)"
    using all dist top mem high lbl rng by blast
qed

theorem classification_result_witness:
  "id2label sample_classifier \<noteq> []
   \<and> (\<forall>ids. length (logits sample_classifier ids) = length (id2label sample_classifier))
   \<and> 512 \<le> model_max_length sample_classifier
   \<and> length (tokenize sample_classifier (pys ''hello'')) \<le> model_max_length sample_classifier
   \<and> (\<exists>ds. main_interface_predictions ucd_excerpt english_stopwords sample_classifier
              (pys ''I feel hopeless and empty'') = Inr (AllScores ds)
            \<and> map label ds = id2label sample_classifier
            \<and> list_all (\<lambda>e. 0 \<le> score e \<and> score e \<le> 1) ds \<and> sum_list (map score ds) = 1)
   \<and> (\<exists>ds. speech_emotions sample_classifier (pys ''hello'') = Inr (AllScores ds)
            \<and> map label ds = id2label sample_classifier
            \<and> list_all (\<lambda>e. 0 \<le> score e \<and> score e \<le> 1) ds \<and> sum_list (map score ds) = 1
            \<and> (\<exists>e. text_sentiment_emotions sample_classifier (pys ''hello'') = Inr (TopScore e)
                  \<and> e \<in> set ds \<and> list_all (\<lambda>d. score d \<le> score e) ds
                  \<and> label e \<in> set (id2label sample_classifier)
                  \<and> 0 \<le> score e \<and> score e \<le> 1))"
proof -
  have a: "id2label sample_classifier \<noteq> []" by (simp add: sample_classifier_def)
  have b: "\<forall>ids. length (logits sample_classifier ids) = length (id2label sample_classifier)"
    by (simp add: sample_classifier_def)
  have c: "512 \<le> model_max_length sample_classifier" by (simp add: sample_classifier_def)
  have d: "length (tokenize sample_classifier (pys ''hello''))
      \<le> model_max_length sample_classifier"
    by (simp add: sample_classifier_def pys_def)
  show ?thesis
    using a b c d classification_result [OF a b c d, of ucd_excerpt english_stopwords
        "pys ''I feel hopeless and empty''"]
    by blast
qed

section \<open>Text cleaning\<close>

text \<open>
  Claim C3 as stated fails: for the input "I feel hopeless and empty" the cleaned text is
  not the lowercased input, because "i" and "and" are stopwords.
\<close>

theorem scenario_one_counterexample:
  "clean_text ucd_excerpt english_stopwords (pys ''I feel hopeless and empty'')
     \<noteq> str_lower ucd_excerpt (pys ''I feel hopeless and empty'')"
  by code_simp

text \<open>
  Claim C3, amended. For the input "I feel hopeless and empty" cleaning deletes no
  character as punctuation, lowercases, and drops the stopwords "i" and "and": the
  cleaned text is "feel hopeless empty", whatever the Unicode tables. The lookup maps
  the label sadness to the category "Potential Depression".
\<close>

theorem scenario_one:
  "re_sub_nonword db (pys ''I feel hopeless and empty'') = pys ''I feel hopeless and empty''
   \<and> clean_text db english_stopwords (pys ''I feel hopeless and empty'')
       = pys ''feel hopeless empty''
   \<and> fst (health_map_get (pys ''sadness'')) = pys ''Potential Depression''"
proof (intro conjI)
  show "re_sub_nonword db (pys ''I feel hopeless and empty'') = pys ''I feel hopeless and empty''"
    by code_simp
  show "clean_text db english_stopwords (pys ''I feel hopeless and empty'')
       = pys ''feel hopeless empty''"
    by code_simp
  show "fst (health_map_get (pys ''sadness'')) = pys ''Potential Depression''"
    by (simp add: health_map_get_def health_map_def dict_get_def)
qed

theorem scenario_one_witness:
  "re_sub_nonword ucd_excerpt (pys ''I feel hopeless and empty'')
     = pys ''I feel hopeless and empty''
   \<and> clean_text ucd_excerpt english_stopwords (pys ''I feel hopeless and empty'')
       = pys ''feel hopeless empty''
   \<and> fst (health_map_get (pys ''sadness'')) = pys ''Potential Depression''"
  by (rule scenario_one)

text \<open>
  Claim C4 as stated fails: the one token of the cleaned "Hello" is "hello", which is not
  a token of the input, so the tokens of the output are not a subset (strict or not) of
  the tokens of the input.
\<close>

theorem clean_text_tokens_counterexample:
  "str_split ucd_excerpt (clean_text ucd_excerpt english_stopwords (pys ''Hello''))
     = [pys ''hello'']
   \<and> str_split ucd_excerpt (pys ''Hello'') = [pys ''Hello'']
   \<and> \<not> set (str_split ucd_excerpt (clean_text ucd_excerpt english_stopwords (pys ''Hello'')))
        \<subset> set (str_split ucd_excerpt (pys ''Hello''))"
  by code_simp

text \<open>
  Claim C4, amended. For every input, the tokens of the cleaned text are exactly the
  tokens of the lowercased, punctuation-free input that are not stopwords, in their
  original order: an order-preserving (not necessarily strict) sub-sequence of them.
\<close>

theorem clean_text_tokens:
  "str_split db (clean_text db sw t)
     = [w \<leftarrow> str_split db (str_lower db (re_sub_nonword db t)). w \<notin> set sw]
   \<and> subseq (str_split db (clean_text db sw t))
        (str_split db (str_lower db (re_sub_nonword db t)))"
  by (simp add: tokens_clean)

theorem clean_text_tokens_witness:
  "str_split ucd_excerpt (clean_text ucd_excerpt english_stopwords (pys ''Hello the World''))
     = [w \<leftarrow> str_split ucd_excerpt
              (str_lower ucd_excerpt (re_sub_nonword ucd_excerpt (pys ''Hello the World''))).
         w \<notin> set english_stopwords]
   \<and> subseq
        (str_split ucd_excerpt (clean_text ucd_excerpt english_stopwords (pys ''Hello the World'')))
        (str_split ucd_excerpt
           (str_lower ucd_excerpt (re_sub_nonword ucd_excerpt (pys ''Hello the World''))))"
  by (rule clean_text_tokens)

text \<open>
  Claim C5 as stated fails: the capital I with dot above (U+0130) is a word character
  whose lowercase form is "i" followed by the combining dot U+0307. Cleaning it once
  gives these two characters; cleaning the result deletes the combining dot, which is
  no word character, and then the stopword "i".
\<close>

theorem clean_text_idempotent_counterexample:
  "clean_text ucd_excerpt english_stopwords [304] = [105, 775]
   \<and> clean_text ucd_excerpt english_stopwords (clean_text ucd_excerpt english_stopwords [304])
       = []"
  by code_simp

text \<open>
  Claim C5, amended. Cleaning is idempotent on every input whose lowercased,
  punctuation-free form holds only word characters and whitespace and whose cleaned
  form is left unchanged by lowercasing (every text of ASCII characters is such an
  input, see \<open>clean_text_ascii\<close>).
\<close>

theorem clean_text_idempotent:
  assumes "list_all (\<lambda>c. re_word db c \<or> re_space db c) (str_lower db (re_sub_nonword db t))"
    and "str_lower db (clean_text db sw t) = clean_text db sw t"
  shows "clean_text db sw (clean_text db sw t) = clean_text db sw t"
  using assms by (rule clean_text_fixed)

theorem clean_text_idempotent_witness:
  "list_all (\<lambda>c. re_word ucd_excerpt c \<or> re_space ucd_excerpt c)
     (str_lower ucd_excerpt (re_sub_nonword ucd_excerpt (pys ''The Quick, brown_fox!'')))
   \<and> str_lower ucd_excerpt (clean_text ucd_excerpt english_stopwords (pys ''The Quick, brown_fox!''))
       = clean_text ucd_excerpt english_stopwords (pys ''The Quick, brown_fox!'')
   \<and> clean_text ucd_excerpt english_stopwords
        (clean_text ucd_excerpt english_stopwords (pys ''The Quick, brown_fox!''))
       = clean_text ucd_excerpt english_stopwords (pys ''The Quick, brown_fox!'')"
proof -
  have a: "list_all (\<lambda>c. c < 128) (pys ''The Quick, brown_fox!'')"
    by (simp add: pys_def)
  have h1: "list_all (\<lambda>c. re_word ucd_excerpt c \<or> re_space ucd_excerpt c)
     (str_lower ucd_excerpt (re_sub_nonword ucd_excerpt (pys ''The Quick, brown_fox!'')))"
    using ascii_lowered(2) [OF a, of ucd_excerpt] by (simp add: list_all_iff)
  have h2: "str_lower ucd_excerpt
       (clean_text ucd_excerpt english_stopwords (pys ''The Quick, brown_fox!''))
     = clean_text ucd_excerpt english_stopwords (pys ''The Quick, brown_fox!'')"
    using a by (rule ascii_clean_fixed)
  show ?thesis using h1 h2 clean_text_idempotent [OF h1 h2] by blast
qed

text \<open>
  Claim C6. The cleaned text contains no punctuation character and no stopword token.
  The second half holds (\<open>clean_text_no_stopword\<close>). The first does not: the comment
  on the substitution says that it removes what is not alphanumeric, but the class
  \<^verbatim>\<open>\w\<close> contains the underscore, which is not alphanumeric and is kept.
\<close>

theorem clean_text_keeps_underscore:
  "clean_text ucd_excerpt english_stopwords (pys ''snake_case'') = pys ''snake_case''
   \<and> 95 \<in> set (clean_text ucd_excerpt english_stopwords (pys ''snake_case''))
   \<and> \<not> isalnum ucd_excerpt 95"
  by code_simp

text \<open>
  Claim C9 as stated fails: the one character U+0130 is cleaned to two characters.
\<close>

theorem clean_text_length_counterexample:
  "length (clean_text ucd_excerpt english_stopwords [304]) = 2
   \<and> \<not> length (clean_text ucd_excerpt english_stopwords [304]) \<le> length [304 :: nat]"
  by code_simp

text \<open>
  Claim C9, amended. Cleaning is a total function, and the cleaned text is no longer
  than the input whenever lowercasing does not lengthen the punctuation-free input
  (it never lengthens a text of ASCII characters, see \<open>clean_text_ascii\<close>).
\<close>

theorem clean_text_length:
  assumes "length (str_lower db (re_sub_nonword db t)) \<le> length (re_sub_nonword db t)"
  shows "length (clean_text db sw t) \<le> length t"
  using assms by (rule clean_text_length_le)

theorem clean_text_length_witness:
  "length (str_lower ucd_excerpt (re_sub_nonword ucd_excerpt (pys ''The Quick, brown_fox!'')))
     \<le> length (re_sub_nonword ucd_excerpt (pys ''The Quick, brown_fox!''))
   \<and> length (clean_text ucd_excerpt english_stopwords (pys ''The Quick, brown_fox!''))
     \<le> length (pys ''The Quick, brown_fox!'')"
proof -
  have a: "list_all (\<lambda>c. c < 128) (pys ''The Quick, brown_fox!'')"
    by (simp add: pys_def)
  have h: "length (str_lower ucd_excerpt (re_sub_nonword ucd_excerpt (pys ''The Quick, brown_fox!'')))
     \<le> length (re_sub_nonword ucd_excerpt (pys ''The Quick, brown_fox!''))"
    by (simp add: ascii_lowered(1) [OF a])
  show ?thesis using h clean_text_length [OF h, of english_stopwords] by blast
qed

section \<open>The risk-category lookup\<close>

text \<open>
  Claim C7. The lookup of a risk category is a total function of the label: for every
  label it returns the pair stored for sadness, fear, anger or neutral, and for every
  other label the default pair (Other in the text application, Neutral in the speech
  application, with the default color).
\<close>

theorem health_map_get_total:
  "health_map_get lbl =
     (if lbl = pys ''sadness'' then (pys ''Potential Depression'', pys ''#e74c3c'')
      else if lbl = pys ''fear'' then (pys ''Anxiety Indicators'', pys ''#3498db'')
      else if lbl = pys ''anger'' then (pys ''Stress Markers'', pys ''#f1c40f'')
      else if lbl = pys ''neutral'' then (pys ''Baseline State'', pys ''#2ecc71'')
      else (pys ''Other'', pys ''#95a5a6''))
   \<and> health_map_speech_get lbl =
     (if lbl = pys ''sadness'' then (pys ''#e74c3c'', pys ''Depression Risk'')
      else if lbl = pys ''fear'' then (pys ''#3498db'', pys ''Anxiety Signs'')
      else if lbl = pys ''anger'' then (pys ''#f1c40f'', pys ''Stress Level'')
      else if lbl = pys ''neutral'' then (pys ''#2ecc71'', pys ''Baseline State'')
      else (pys ''#95a5a6'', pys ''Neutral''))"
  by (simp add: health_map_get_def health_map_def health_map_speech_get_def
      health_map_speech_def dict_get_def)

theorem health_map_get_total_witness:
  "health_map_get (pys ''joy'') = (pys ''Other'', pys ''#95a5a6'')
   \<and> health_map_speech_get (pys ''joy'') = (pys ''#95a5a6'', pys ''Neutral'')"
  using health_map_get_total [of "pys ''joy''"] by (simp add: pys_def)

text \<open>
  Claim C10. The risk category and the color on a card depend on the label of the
  prediction only: two predictions with the same label get the same pair, whatever
  their scores, in the text mode and in the speech mode.
\<close>

theorem card_depends_on_label_only:
  assumes "label p = label q"
  shows "snd (snd (card p)) = snd (snd (card q))
     \<and> snd (snd (card_speech_mode p)) = snd (snd (card_speech_mode q))"
  using assms by (simp add: card_def card_speech_mode_def Let_def split: prod.splits)

theorem card_depends_on_label_only_witness:
  "label \<lparr>label = pys ''fear'', score = 0.9\<rparr> = label \<lparr>label = pys ''fear'', score = 0.1\<rparr>
   \<and> snd (snd (card \<lparr>label = pys ''fear'', score = 0.9\<rparr>))
       = snd (snd (card \<lparr>label = pys ''fear'', score = 0.1\<rparr>))
   \<and> snd (snd (card_speech_mode \<lparr>label = pys ''fear'', score = 0.9\<rparr>))
       = snd (snd (card_speech_mode \<lparr>label = pys ''fear'', score = 0.1\<rparr>))"
  using card_depends_on_label_only
    [of "\<lparr>label = pys ''fear'', score = 0.9\<rparr>" "\<lparr>label = pys ''fear'', score = 0.1\<rparr>"]
  by simp

end
